theory Spec2Isabelle
  imports Main "HOL-Library.AList" "HOL-Library.Sublist"
begin

section \<open>Python values and the builtins the code applies to them\<close>

text \<open>
  A cell of a row is a Python value. The code only ever looks a value up, passes it on,
  or takes its \<open>str()\<close>; so a value of a type other than \<open>None\<close>, \<open>str\<close>, \<open>int\<close> and
  \<open>datetime.date\<close> (a float, a Decimal, a datetime) is carried as \<open>POther s\<close>, where
  \<open>s\<close> is its \<open>str()\<close> text. Strings are ASCII texts.
\<close>

datatype pyval = PNone | PStr string | PInt int | PDate nat nat nat | POther string

definition digit_char :: "nat \<Rightarrow> char" where
  "digit_char d = char_of (48 + d)"

fun str_nat :: "nat \<Rightarrow> string" where
  "str_nat n = (if n < 10 then [digit_char n] else str_nat (n div 10) @ [digit_char (n mod 10)])"

declare str_nat.simps [simp del]

definition str_int :: "int \<Rightarrow> string" where
  "str_int i = (if i < 0 then CHR ''-'' # str_nat (nat (- i)) else str_nat (nat i))"

definition zero_pad :: "nat \<Rightarrow> string \<Rightarrow> string" where
  "zero_pad w s = replicate (w - length s) CHR ''0'' @ s"

text \<open>\<open>str(v)\<close>; a date prints as \<open>date.isoformat()\<close>, that is \<open>%04d-%02d-%02d\<close>.\<close>

fun py_str :: "pyval \<Rightarrow> string" where
  "py_str PNone = ''None''"
| "py_str (PStr s) = s"
| "py_str (PInt i) = str_int i"
| "py_str (PDate y m d) =
     zero_pad 4 (str_nat y) @ ''-'' @ zero_pad 2 (str_nat m) @ ''-'' @ zero_pad 2 (str_nat d)"
| "py_str (POther s) = s"

text \<open>\<open>s.lower()\<close> on ASCII text.\<close>

definition lower_char :: "char \<Rightarrow> char" where
  "lower_char c = (let n = (of_char c :: nat) in if 65 \<le> n \<and> n \<le> 90 then char_of (n + 32) else c)"

definition py_lower :: "string \<Rightarrow> string" where
  "py_lower s = map lower_char s"

text \<open>\<open>t in s\<close> on strings: \<open>t\<close> starts at some position of \<open>s\<close>.\<close>

fun py_in :: "string \<Rightarrow> string \<Rightarrow> bool" where
  "py_in t [] = (t = [])"
| "py_in t (c # s) = (prefix t (c # s) \<or> py_in t s)"

text \<open>
  A \<open>dict\<close> keeps its keys in insertion order; storing under a key that is present
  replaces the value where the key stands (\<open>AList.update\<close>). \<open>d.get(k, default)\<close>:
\<close>

type_synonym pydict = "(string \<times> pyval) list"

definition dict_get :: "pydict \<Rightarrow> string \<Rightarrow> pyval \<Rightarrow> pyval" where
  "dict_get d k dflt = (case map_of d k of None \<Rightarrow> dflt | Some v \<Rightarrow> v)"

section \<open>DataTreeview: the searchable grid (census\_app.py)\<close>

text \<open>
  The state of one \<open>DataTreeview\<close> frame: its attributes \<open>columns\<close>, \<open>search_var\<close>,
  \<open>data\<close>, and of the widget \<open>self.tree\<close> the items it holds (each the \<open>values\<close> list it
  was inserted with, in display order) and the selected items (by position). \<open>built\<close>
  says whether \<open>_init_widgets\<close> has run, that is whether \<open>self.tree\<close> exists. \<open>old_trees\<close>
  are the Treeview widgets that earlier runs of \<open>_init_widgets\<close> packed into the frame and
  that \<open>self.tree\<close> no longer names, each with the items it holds: nothing in the class
  destroys, unpacks or empties them, so they stay on screen. Headings, scrollbars and
  geometry are not part of the state.
\<close>

record DataTreeview =
  columns :: "string list"
  search_var :: string
  tree :: "pyval list list"
  selection :: "nat list"
  data :: "pydict list"
  built :: bool
  old_trees :: "pyval list list list"

text \<open>
  \<open>_init_widgets\<close>: packs a new search frame with a fresh \<open>StringVar\<close> and a new frame with
  a fresh empty \<open>Treeview\<close> over \<open>self.columns\<close>, binds \<open>self.search_var\<close> and \<open>self.tree\<close>
  to them, and sets \<open>self.data = []\<close>. The Treeview that \<open>self.tree\<close> named before, if
  there was one, stays packed in the frame with its items.
\<close>

definition init_widgets :: "DataTreeview \<Rightarrow> DataTreeview" where
  "init_widgets st =
     st\<lparr>old_trees := (if built st then old_trees st @ [tree st] else old_trees st),
        built := True, search_var := [], tree := [], selection := [], data := []\<rparr>"

text \<open>\<open>__init__(parent, columns)\<close>: the frame is empty until \<open>_init_widgets\<close> has run.\<close>

definition DataTreeview_init :: "string list \<Rightarrow> DataTreeview" where
  "DataTreeview_init cols =
     init_widgets \<lparr>columns = cols, search_var = [], tree = [], selection = [], data = [],
                   built = False, old_trees = []\<rparr>"

text \<open>The items on screen in the frame: those of the earlier Treeviews, then those of \<open>self.tree\<close>.\<close>

definition displayed :: "DataTreeview \<Rightarrow> pyval list list" where
  "displayed st = concat (old_trees st) @ tree st"

text \<open>
  The test of the inner loop of \<open>_refresh_tree\<close>:
  \<open>any(search_term in str(row.get(col, '')).lower() for col in self.columns)\<close>.
\<close>

definition row_matches :: "string list \<Rightarrow> string \<Rightarrow> pydict \<Rightarrow> bool" where
  "row_matches cols search_term row =
     list_ex (\<lambda>col. py_in search_term (py_lower (py_str (dict_get row col (PStr ''''))))) cols"

text \<open>The local \<open>filtered_data\<close> of \<open>_refresh_tree\<close>: the rows that are shown.\<close>

definition filtered_data :: "DataTreeview \<Rightarrow> pydict list" where
  "filtered_data st =
     (let search_term = py_lower (search_var st) in
      if search_term \<noteq> [] then filter (row_matches (columns st) search_term) (data st)
      else data st)"

definition row_values :: "string list \<Rightarrow> pydict \<Rightarrow> pyval list" where
  "row_values cols row = map (\<lambda>col. dict_get row col (PStr '''')) cols"

text \<open>
  \<open>_refresh_tree\<close>: delete every item (which empties the selection), then insert the
  values of each row of \<open>filtered_data\<close>, in order.
\<close>

definition refresh_tree :: "DataTreeview \<Rightarrow> DataTreeview" where
  "refresh_tree st = st\<lparr>tree := map (row_values (columns st)) (filtered_data st), selection := []\<rparr>"

definition on_search :: "DataTreeview \<Rightarrow> DataTreeview" where
  "on_search st = refresh_tree st"

text \<open>
  Writing the search box: \<open>search_var\<close> is traced with mode \<open>'w'\<close>, so every write runs
  \<open>_on_search\<close>.
\<close>

definition set_filter :: "string \<Rightarrow> DataTreeview \<Rightarrow> DataTreeview" where
  "set_filter t st = on_search (st\<lparr>search_var := t\<rparr>)"

definition load_data :: "pydict list \<Rightarrow> DataTreeview \<Rightarrow> DataTreeview" where
  "load_data d st = refresh_tree (st\<lparr>data := d\<rparr>)"

text \<open>
  \<open>get_selected_row\<close>: \<open>None\<close> when nothing is selected, else the dict
  \<open>{self.columns[i]: values[i] for i in range(len(self.columns))}\<close> of the first selected
  item; \<open>values[i]\<close> raises \<open>IndexError\<close> when the item holds fewer values than there are
  columns.
\<close>

datatype py_error = IndexError | TclError | DatabaseError string

fun dict_of_columns :: "string list \<Rightarrow> pyval list \<Rightarrow> pydict \<Rightarrow> py_error + pydict" where
  "dict_of_columns [] vs d = Inr d"
| "dict_of_columns (c # cs) [] d = Inl IndexError"
| "dict_of_columns (c # cs) (v # vs) d = dict_of_columns cs vs (AList.update c v d)"

definition get_selected_row :: "DataTreeview \<Rightarrow> py_error + pydict option" where
  "get_selected_row st =
     (case selection st of
        [] \<Rightarrow> Inr None
      | item # _ \<Rightarrow>
          if item < length (tree st) then
            (case dict_of_columns (columns st) (tree st ! item) [] of
               Inl e \<Rightarrow> Inl e
             | Inr d \<Rightarrow> Inr (Some d))
          else Inl TclError)"

text \<open>
  Repurposing a view for another report, as \<open>show_population_summary\<close>,
  \<open>show_age_distribution\<close> and \<open>show_gender_stats\<close> do before they load:
  \<open>self.report_tree.columns = columns; self.report_tree._init_widgets()\<close>.
\<close>

definition reconfigure_columns :: "string list \<Rightarrow> DataTreeview \<Rightarrow> DataTreeview" where
  "reconfigure_columns cols st = init_widgets (st\<lparr>columns := cols\<rparr>)"

section \<open>Export to CSV (census\_app.py)\<close>

text \<open>
  What \<open>csv.writer\<close> writes under the default dialect (delimiter comma, quote character
  the double quote, doubled inside a quoted field, minimal quoting, line terminator CR LF):
  \<open>None\<close> is written as the empty text and any other value as its \<open>str()\<close>; a field is
  quoted when it holds a delimiter, a quote or a line break; a record of one empty field
  is written as two quotes.
\<close>

definition csv_str :: "pyval \<Rightarrow> string" where
  "csv_str v = (case v of PNone \<Rightarrow> [] | _ \<Rightarrow> py_str v)"

definition csv_special :: "char \<Rightarrow> bool" where
  "csv_special c = (c = CHR '','' \<or> c = CHR 0x22 \<or> c = CHR 0x0D \<or> c = CHR 0x0A)"

definition needs_quote :: "string \<Rightarrow> bool" where
  "needs_quote f = list_ex csv_special f"

fun csv_escape :: "string \<Rightarrow> string" where
  "csv_escape [] = []"
| "csv_escape (c # s) = (if c = CHR 0x22 then CHR 0x22 # CHR 0x22 # csv_escape s else c # csv_escape s)"

definition csv_field :: "string \<Rightarrow> string" where
  "csv_field f = (if needs_quote f then CHR 0x22 # csv_escape f @ [CHR 0x22] else f)"

fun csv_join :: "string list \<Rightarrow> string" where
  "csv_join [] = []"
| "csv_join [f] = f"
| "csv_join (f # g # fs) = f @ CHR '','' # csv_join (g # fs)"

definition csv_record :: "string list \<Rightarrow> string" where
  "csv_record fs =
     (if fs = [[]] then [CHR 0x22, CHR 0x22] else csv_join (map csv_field fs)) @ [CHR 0x0D, CHR 0x0A]"

definition csv_text :: "string list list \<Rightarrow> string" where
  "csv_text recs = concat (map csv_record recs)"

text \<open>
  The records \<open>_export_csv\<close> hands to the writer: \<open>writeheader()\<close> writes the field names,
  then for each row of \<open>self.data\<close> the dict \<open>{col: row.get(col, '') for col in self.columns}\<close>
  is written under the field names \<open>self.columns\<close>.
\<close>

definition export_records :: "DataTreeview \<Rightarrow> string list list" where
  "export_records st =
     columns st # map (\<lambda>row. map (\<lambda>col. csv_str (dict_get row col (PStr ''''))) (columns st)) (data st)"

text \<open>
  The surroundings of an export: the file name the save dialog returns (empty when the
  user cancels), and for each file name the text of the exception that opening it for
  writing raises, if it does. Files are a map from name to content. The message boxes
  shown are returned in order.
\<close>

datatype dialog = ShowWarning string string | ShowInfo string string | ShowError string string

record export_env =
  asksaveasfilename :: string
  open_error :: "string \<Rightarrow> string option"

type_synonym files = "string \<Rightarrow> string option"

definition export_csv :: "export_env \<Rightarrow> DataTreeview \<Rightarrow> files \<Rightarrow> files \<times> dialog list" where
  "export_csv env st fs =
     (if data st = [] then (fs, [ShowWarning ''Export'' ''No data to export''])
      else
        let filename = asksaveasfilename env in
        if filename = [] then (fs, [])
        else
          (case open_error env filename of
             Some e \<Rightarrow> (fs, [ShowError ''Export Error'' (''Failed to export: '' @ e)])
           | None \<Rightarrow>
               (fs(filename \<mapsto> csv_text (export_records st)),
                [ShowInfo ''Export'' (''Data exported to '' @ filename)])))"

section \<open>The visible rows under the empty filter\<close>

lemma py_lower_Nil_iff: "py_lower t = [] \<longleftrightarrow> t = []"
  by (simp add: py_lower_def)

lemma data_set_filter: "data (set_filter t st) = data st"
  by (simp add: set_filter_def on_search_def refresh_tree_def)

lemma columns_set_filter: "columns (set_filter t st) = columns st"
  by (simp add: set_filter_def on_search_def refresh_tree_def)

lemma search_var_set_filter: "search_var (set_filter t st) = t"
  by (simp add: set_filter_def on_search_def refresh_tree_def)

lemma tree_set_filter:
  "tree (set_filter t st) = map (row_values (columns st)) (filtered_data (st\<lparr>search_var := t\<rparr>))"
  by (simp add: set_filter_def on_search_def refresh_tree_def)

text \<open>
  C2. For every row set \<open>R\<close> loaded into the view (whatever the columns and whatever the
  filter was before), setting the filter text to the empty string makes the visible rows
  exactly \<open>R\<close>, in load order: the rows shown are \<open>R\<close>, the tree holds one item per row of
  \<open>R\<close> in the same order, each the row's values under the columns, and \<open>R\<close> is still
  the loaded row set.
\<close>

theorem C2_empty_filter_shows_all:
  "filtered_data (set_filter [] (load_data R st)) = R \<and>
   tree (set_filter [] (load_data R st)) = map (row_values (columns st)) R \<and>
   data (set_filter [] (load_data R st)) = R"
  by (simp add: set_filter_def on_search_def refresh_tree_def load_data_def filtered_data_def
      py_lower_def)

theorem C2_empty_filter_shows_all_witness:
  "filtered_data (set_filter [] (load_data
      [[(''sex'', PStr ''M''), (''age_years'', PInt 34)], [(''sex'', PStr ''F''), (''age_years'', PInt 5)]]
      (set_filter ''F'' (DataTreeview_init [''sex'', ''age_years''])))) =
    [[(''sex'', PStr ''M''), (''age_years'', PInt 34)], [(''sex'', PStr ''F''), (''age_years'', PInt 5)]]"
  using C2_empty_filter_shows_all
    [of "[[(''sex'', PStr ''M''), (''age_years'', PInt 34)], [(''sex'', PStr ''F''), (''age_years'', PInt 5)]]"
        "set_filter ''F'' (DataTreeview_init [''sex'', ''age_years''])"]
  by simp

section \<open>The filter decides which rows are shown\<close>

lemma py_in_iff: "py_in t s \<longleftrightarrow> (\<exists>ps ss. s = ps @ t @ ss)"
proof (induction s)
  case Nil
  then show ?case by auto
next
  case (Cons c s)
  show ?case
  proof
    assume "py_in t (c # s)"
    then consider "prefix t (c # s)" | "py_in t s" by auto
    then show "\<exists>ps ss. c # s = ps @ t @ ss"
    proof cases
      case 1
      then obtain ss where "c # s = t @ ss" by (auto simp: prefix_def)
      then have "c # s = [] @ t @ ss" by simp
      then show ?thesis by blast
    next
      case 2
      with Cons obtain ps ss where "s = ps @ t @ ss" by blast
      then have "c # s = (c # ps) @ t @ ss" by simp
      then show ?thesis by blast
    qed
  next
    assume "\<exists>ps ss. c # s = ps @ t @ ss"
    then obtain ps ss where e: "c # s = ps @ t @ ss" by blast
    show "py_in t (c # s)"
    proof (cases ps)
      case Nil
      with e have "prefix t (c # s)" by (simp add: prefix_def)
      then show ?thesis by simp
    next
      case (Cons p ps')
      with e have "s = ps' @ t @ ss" by simp
      with Cons.IH have "py_in t s" by blast
      then show ?thesis by simp
    qed
  qed
qed

lemma row_matches_iff:
  "row_matches cols term row \<longleftrightarrow>
   (\<exists>col\<in>set cols. \<exists>ps ss. py_lower (py_str (dict_get row col (PStr ''''))) = ps @ term @ ss)"
  by (simp add: row_matches_def list_ex_iff py_in_iff)

text \<open>The scenario of the specification: two rows under the columns sex and age\_years.\<close>

definition scenario_rows :: "pydict list" where
  "scenario_rows =
     [[(''sex'', PStr ''M''), (''age_years'', PInt 34)], [(''sex'', PStr ''F''), (''age_years'', PInt 5)]]"

definition scenario_view :: DataTreeview where
  "scenario_view = load_data scenario_rows (DataTreeview_init [''sex'', ''age_years''])"

lemma scenario_filter_F:
  "filtered_data (set_filter ''F'' scenario_view) = [[(''sex'', PStr ''F''), (''age_years'', PInt 5)]]"
  by code_simp

lemma scenario_data: "data scenario_view = scenario_rows"
  by code_simp

lemma scenario_columns: "columns scenario_view = [''sex'', ''age_years'']"
  by code_simp

text \<open>
  C1, as the code has it. After the search box is set to \<open>t\<close>, the rows shown are, in load
  order, exactly the loaded rows for which \<open>t\<close> is empty or the lower-cased \<open>str()\<close> of
  the value under at least one declared column (the empty text where the row lacks the
  column) contains the lower-cased \<open>t\<close> as a substring; the tree holds the values of
  these rows; and the loaded row set is what it was.
\<close>

theorem C1_visible_iff:
  "filtered_data (set_filter t st) =
     filter (\<lambda>row. t = [] \<or>
        (\<exists>col\<in>set (columns st). \<exists>ps ss.
            py_lower (py_str (dict_get row col (PStr ''''))) = ps @ py_lower t @ ss)) (data st) \<and>
   tree (set_filter t st) = map (row_values (columns st)) (filtered_data (set_filter t st)) \<and>
   data (set_filter t st) = data st"
  by (simp add: set_filter_def on_search_def refresh_tree_def filtered_data_def row_matches_iff
      py_lower_Nil_iff cong: filter_cong)

theorem C1_visible_iff_witness:
  "filtered_data (set_filter ''F'' scenario_view) = [[(''sex'', PStr ''F''), (''age_years'', PInt 5)]] \<and>
   tree (set_filter ''F'' scenario_view) = [[PStr ''F'', PInt 5]] \<and>
   data (set_filter ''F'' scenario_view) = scenario_rows"
proof -
  have "tree (set_filter ''F'' scenario_view) =
          map (row_values (columns scenario_view)) (filtered_data (set_filter ''F'' scenario_view)) \<and>
        data (set_filter ''F'' scenario_view) = data scenario_view"
    using C1_visible_iff [of "''F''" scenario_view] by blast
  moreover have "row_values [''sex'', ''age_years''] [(''sex'', PStr ''F''), (''age_years'', PInt 5)] =
      [PStr ''F'', PInt 5]"
    by code_simp
  ultimately show ?thesis
    using scenario_filter_F scenario_data scenario_columns by simp
qed

text \<open>
  C1 as the claim words it (a row is shown if and only if one of its declared columns
  contains the lower-cased filter text) fails for a view without columns under the empty
  filter: the loaded row is shown, and no column contains anything.
\<close>

theorem C1_counterexample:
  "\<not> (\<forall>row. row \<in> set (filtered_data (set_filter [] (load_data [[(''a'', PStr ''x'')]] (DataTreeview_init [])))) \<longleftrightarrow>
        row \<in> set (data (set_filter [] (load_data [[(''a'', PStr ''x'')]] (DataTreeview_init [])))) \<and>
        (\<exists>col\<in>set (columns (set_filter [] (load_data [[(''a'', PStr ''x'')]] (DataTreeview_init [])))).
            py_in (py_lower []) (py_lower (py_str (dict_get row col (PStr ''''))))))"
  by (simp add: set_filter_def on_search_def refresh_tree_def filtered_data_def load_data_def
      DataTreeview_init_def init_widgets_def py_lower_def)

section \<open>Export with nothing loaded\<close>

definition no_files :: files where
  "no_files = (\<lambda>name. None)"

definition save_as :: "string \<Rightarrow> export_env" where
  "save_as name = \<lparr>asksaveasfilename = name, open_error = (\<lambda>f. None)\<rparr>"

text \<open>
  C3. Whatever the columns, the destination and the files present: when the loaded row
  set is empty, \<open>_export_csv\<close> ends with the warning "No data to export" (the validation
  failure, reported as the user interface reports every failure) before the save dialog
  is opened, and the files are what they were: no file is created or written.
\<close>

theorem C3_empty_export:
  "data st = [] \<Longrightarrow> export_csv env st fs = (fs, [ShowWarning ''Export'' ''No data to export''])"
  by (simp add: export_csv_def)

theorem C3_empty_export_witness:
  "data (DataTreeview_init [''sex'', ''age_years'']) = [] \<and>
   export_csv (save_as ''out.csv'') (DataTreeview_init [''sex'', ''age_years'']) no_files =
     (no_files, [ShowWarning ''Export'' ''No data to export''])"
proof -
  have d: "data (DataTreeview_init [''sex'', ''age_years'']) = []"
    by (simp add: DataTreeview_init_def init_widgets_def)
  show ?thesis using d C3_empty_export [OF d] by simp
qed

section \<open>Repurposing a view: what is cleared and what stays on screen\<close>

text \<open>
  After the column list of a view is replaced (whatever was loaded, shown, selected or
  typed into the search box before), its row set is empty, the Treeview that \<open>self.tree\<close>
  now names holds no item, nothing is selected in it, so \<open>get_selected_row\<close> returns
  \<open>None\<close>; no filter text brings a row back into it; an export finds no data; and the
  next load shows its rows under the new columns.
\<close>

lemma reconfigure_columns_state:
  "data (reconfigure_columns cols st) = [] \<and>
   tree (reconfigure_columns cols st) = [] \<and>
   filtered_data (reconfigure_columns cols st) = [] \<and>
   get_selected_row (reconfigure_columns cols st) = Inr None \<and>
   columns (reconfigure_columns cols st) = cols \<and>
   (\<forall>t. tree (set_filter t (reconfigure_columns cols st)) = [] \<and>
        get_selected_row (set_filter t (reconfigure_columns cols st)) = Inr None) \<and>
   (\<forall>env fs. export_csv env (reconfigure_columns cols st) fs =
        (fs, [ShowWarning ''Export'' ''No data to export''])) \<and>
   (\<forall>R. tree (load_data R (reconfigure_columns cols st)) = map (row_values cols) R)"
  by (simp add: reconfigure_columns_def init_widgets_def filtered_data_def get_selected_row_def
      set_filter_def on_search_def refresh_tree_def export_csv_def load_data_def py_lower_def)

text \<open>
  The Treeview that showed the rows is not the one that was cleared: it stays in the
  frame with its items, and neither a later filter nor a later load touches it.
\<close>

lemma old_trees_reconfigure_columns:
  "built st \<Longrightarrow> old_trees (reconfigure_columns cols st) = old_trees st @ [tree st]"
  by (simp add: reconfigure_columns_def init_widgets_def)

lemma old_trees_set_filter: "old_trees (set_filter t st) = old_trees st"
  by (simp add: set_filter_def on_search_def refresh_tree_def)

lemma old_trees_load_data: "old_trees (load_data R st) = old_trees st"
  by (simp add: load_data_def refresh_tree_def)

lemma built_load_data: "built (load_data R st) = built st"
  by (simp add: load_data_def refresh_tree_def)

lemma built_DataTreeview_init: "built (DataTreeview_init cols)"
  by (simp add: DataTreeview_init_def init_widgets_def)

lemma displayed_reconfigure_columns:
  "built st \<Longrightarrow> displayed (reconfigure_columns cols st) = displayed st"
  by (simp add: displayed_def old_trees_reconfigure_columns reconfigure_columns_state)

text \<open>
  C8 fails on the code. The view of the scenario shows its two rows; after its columns
  are replaced, as the report handlers do, the row set and the new Treeview are empty,
  yet both rows are still displayed in the frame (in the Treeview left behind), and they
  are still displayed after the next load, above the new rows.
\<close>

theorem C8_stale_rows_stay_displayed:
  "data (reconfigure_columns [''age_group'', ''count''] scenario_view) = [] \<and>
   tree (reconfigure_columns [''age_group'', ''count''] scenario_view) = [] \<and>
   displayed (reconfigure_columns [''age_group'', ''count''] scenario_view) =
     [[PStr ''M'', PInt 34], [PStr ''F'', PInt 5]] \<and>
   displayed (load_data [[(''age_group'', PStr ''0-4''), (''count'', PInt 9)]]
               (reconfigure_columns [''age_group'', ''count''] scenario_view)) =
     [[PStr ''M'', PInt 34], [PStr ''F'', PInt 5], [PStr ''0-4'', PInt 9]]"
  by code_simp

section \<open>Export writes the loaded rows, not the shown ones\<close>

lemma export_records_set_filter: "export_records (set_filter t st) = export_records st"
  by (simp add: export_records_def data_set_filter columns_set_filter)

lemma export_csv_set_filter: "export_csv env (set_filter t st) fs = export_csv env st fs"
  by (simp add: export_csv_def export_records_set_filter data_set_filter Let_def
      split: option.split)

text \<open>
  What an export writes when there are rows, a file name was chosen and the file opens:
  the chosen file holds the CSV text of the header and of one record per loaded row, all
  other files are what they were, and the success message is shown.
\<close>

lemma export_csv_writes:
  "data st \<noteq> [] \<Longrightarrow> asksaveasfilename env \<noteq> [] \<Longrightarrow>
   open_error env (asksaveasfilename env) = None \<Longrightarrow>
   export_csv env st fs =
     (fs(asksaveasfilename env \<mapsto> csv_text (export_records st)),
      [ShowInfo ''Export'' (''Data exported to '' @ asksaveasfilename env)])"
  by (simp add: export_csv_def Let_def)

text \<open>
  C9. For a fixed loaded row set and column list, the outcome of an export (the files
  and the messages) is the same under any two filter texts, and the same as with no
  filter set; and when the export writes (there are rows, a file name was chosen, the
  file opens), the file it writes holds the CSV text of the header followed by one
  record for every loaded row, in load order, whatever the filter shows.
\<close>

theorem C9_export_ignores_filter:
  "export_csv env (set_filter t1 st) fs = export_csv env (set_filter t2 st) fs \<and>
   export_csv env (set_filter t1 st) fs = export_csv env st fs \<and>
   (data st \<noteq> [] \<and> asksaveasfilename env \<noteq> [] \<and>
    open_error env (asksaveasfilename env) = None \<longrightarrow>
      export_csv env (set_filter t1 st) fs =
        (fs(asksaveasfilename env \<mapsto>
              csv_text (columns st #
                map (\<lambda>row. map (\<lambda>col. csv_str (dict_get row col (PStr ''''))) (columns st))
                  (data st))),
         [ShowInfo ''Export'' (''Data exported to '' @ asksaveasfilename env)]))"
proof (intro conjI impI)
  show "export_csv env (set_filter t1 st) fs = export_csv env (set_filter t2 st) fs"
    by (simp add: export_csv_set_filter)
  show "export_csv env (set_filter t1 st) fs = export_csv env st fs"
    by (simp add: export_csv_set_filter)
next
  assume "data st \<noteq> [] \<and> asksaveasfilename env \<noteq> [] \<and>
    open_error env (asksaveasfilename env) = None"
  then have "export_csv env st fs =
     (fs(asksaveasfilename env \<mapsto> csv_text (export_records st)),
      [ShowInfo ''Export'' (''Data exported to '' @ asksaveasfilename env)])"
    by (simp add: export_csv_writes)
  then show "export_csv env (set_filter t1 st) fs =
        (fs(asksaveasfilename env \<mapsto>
              csv_text (columns st #
                map (\<lambda>row. map (\<lambda>col. csv_str (dict_get row col (PStr ''''))) (columns st))
                  (data st))),
         [ShowInfo ''Export'' (''Data exported to '' @ asksaveasfilename env)])"
    by (simp add: export_csv_set_filter export_records_def)
qed

lemma scenario_csv_text:
  "csv_text (export_records scenario_view) =
     ''sex,age_years'' @ [CHR 0x0D, CHR 0x0A] @ ''M,34'' @ [CHR 0x0D, CHR 0x0A] @
     ''F,5'' @ [CHR 0x0D, CHR 0x0A]"
  by code_simp

theorem C9_export_ignores_filter_witness:
  "filtered_data (set_filter ''zzz'' scenario_view) = [] \<and>
   export_csv (save_as ''out.csv'') (set_filter ''F'' scenario_view) no_files =
   export_csv (save_as ''out.csv'') (set_filter ''zzz'' scenario_view) no_files \<and>
   export_csv (save_as ''out.csv'') (set_filter ''zzz'' scenario_view) no_files =
     (no_files(''out.csv'' \<mapsto>
        ''sex,age_years'' @ [CHR 0x0D, CHR 0x0A] @ ''M,34'' @ [CHR 0x0D, CHR 0x0A] @
        ''F,5'' @ [CHR 0x0D, CHR 0x0A]),
      [ShowInfo ''Export'' ''Data exported to out.csv''])"
proof -
  have f: "filtered_data (set_filter ''zzz'' scenario_view) = []"
    by code_simp
  have d: "data scenario_view \<noteq> []"
    by (simp add: scenario_data scenario_rows_def)
  have e: "asksaveasfilename (save_as ''out.csv'') = ''out.csv''"
      "open_error (save_as ''out.csv'') ''out.csv'' = None"
    by (simp_all add: save_as_def)
  have r: "columns scenario_view #
      map (\<lambda>row. map (\<lambda>col. csv_str (dict_get row col (PStr ''''))) (columns scenario_view))
        (data scenario_view) = export_records scenario_view"
    by (simp add: export_records_def)
  have a: "export_csv (save_as ''out.csv'') (set_filter ''F'' scenario_view) no_files =
      export_csv (save_as ''out.csv'') (set_filter ''zzz'' scenario_view) no_files"
    using C9_export_ignores_filter [of "save_as ''out.csv''" "''F''" scenario_view no_files "''zzz''"]
    by simp
  have b: "export_csv (save_as ''out.csv'') (set_filter ''zzz'' scenario_view) no_files =
     (no_files(''out.csv'' \<mapsto> csv_text (export_records scenario_view)),
      [ShowInfo ''Export'' (''Data exported to '' @ ''out.csv'')])"
  proof -
    have h: "data scenario_view \<noteq> [] \<and> asksaveasfilename (save_as ''out.csv'') \<noteq> [] \<and>
        open_error (save_as ''out.csv'') (asksaveasfilename (save_as ''out.csv'')) = None"
      using d e by simp
    have "export_csv (save_as ''out.csv'') (set_filter ''zzz'' scenario_view) no_files =
        (no_files(asksaveasfilename (save_as ''out.csv'') \<mapsto>
              csv_text (columns scenario_view #
                map (\<lambda>row. map (\<lambda>col. csv_str (dict_get row col (PStr ''''))) (columns scenario_view))
                  (data scenario_view))),
         [ShowInfo ''Export'' (''Data exported to '' @ asksaveasfilename (save_as ''out.csv''))])"
      using C9_export_ignores_filter
        [of "save_as ''out.csv''" "''zzz''" scenario_view no_files "''zzz''"] h
      by blast
    then show ?thesis unfolding r e by simp
  qed
  show ?thesis using f a b by (simp add: scenario_csv_text)
qed

section \<open>Retrieving a person through a ref cursor\<close>

text \<open>
  \<open>OracleDB.sp_get_person_by_id\<close> is the same text in census\_app.py and in
  census\_crud\_ui.py. What the driver does is a parameter: \<open>callproc\<close> either raises, or
  leaves in the OUT variable a cursor with its \<open>description\<close> (the column names, first
  component of each entry) and the rows \<open>fetchall()\<close> returns.
\<close>

record ref_cursor =
  description :: "string list"
  fetchall :: "pyval list list"

type_synonym get_person_proc = "int \<Rightarrow> py_error + ref_cursor"

definition sp_get_person_by_id :: "get_person_proc \<Rightarrow> int \<Rightarrow> py_error + pydict option" where
  "sp_get_person_by_id callproc person_id =
     (case callproc person_id of
        Inl e \<Rightarrow> Inl e
      | Inr out_cursor \<Rightarrow>
          let rows = fetchall out_cursor;
              cols = (if rows \<noteq> [] then map py_lower (description out_cursor) else [])
          in (case rows of
                [] \<Rightarrow> Inr None
              | row # _ \<Rightarrow>
                  (case dict_of_columns cols row [] of
                     Inl e \<Rightarrow> Inl e
                   | Inr d \<Rightarrow> Inr (Some d))))"

lemma dict_of_columns_fold:
  "length cs \<le> length vs \<Longrightarrow>
   dict_of_columns cs vs d = Inr (fold (\<lambda>(c, v). AList.update c v) (zip cs vs) d)"
  by (induction cs vs d rule: dict_of_columns.induct) auto

lemma map_of_fold_update:
  "map_of (fold (\<lambda>(c, v). AList.update c v) ps d) = map_of d ++ map_of (rev ps)"
proof (induction ps arbitrary: d)
  case Nil
  then show ?case by simp
next
  case (Cons p ps)
  obtain c v where p: "p = (c, v)" by (cases p)
  have "map_of (fold (\<lambda>(c, v). AList.update c v) (p # ps) d) =
        map_of (AList.update c v d) ++ map_of (rev ps)"
    using Cons.IH [of "AList.update c v d"] p by simp
  also have "\<dots> = (map_of d)(c \<mapsto> v) ++ map_of (rev ps)"
    by (simp add: update_conv')
  also have "\<dots> = map_of d ++ map_of (rev (p # ps))"
    using p by (simp add: map_add_upd_left fun_eq_iff map_add_def split: option.split)
  finally show ?case .
qed

lemma update_append_fresh:
  "k \<notin> fst ` set d \<Longrightarrow> AList.update k v d = d @ [(k, v)]"
  by (induction d) auto

lemma fold_update_distinct:
  "distinct (map fst ps) \<Longrightarrow> fst ` set ps \<inter> fst ` set d = {} \<Longrightarrow>
   fold (\<lambda>(c, v). AList.update c v) ps d = d @ ps"
proof (induction ps arbitrary: d)
  case Nil
  then show ?case by simp
next
  case (Cons p ps)
  obtain c v where p: "p = (c, v)" by (cases p)
  have fresh: "c \<notin> fst ` set d" using Cons.prems p by auto
  have "fst ` set ps \<inter> fst ` set (d @ [(c, v)]) = {}"
    using Cons.prems p by (auto simp: image_iff)
  moreover have "distinct (map fst ps)" using Cons.prems by simp
  ultimately have "fold (\<lambda>(c, v). AList.update c v) ps (d @ [(c, v)]) = (d @ [(c, v)]) @ ps"
    by (rule Cons.IH[rotated])
  then show ?case using p fresh by (simp add: update_append_fresh)
qed

text \<open>
  C10. When the procedure returns a cursor without rows, \<open>sp_get_person_by_id\<close> returns
  \<open>None\<close> and raises nothing. When it returns rows (each with a value for every column
  of the description), the result is a dict built from the first row: it maps each
  lower-cased column name to the row's value in that column (the last one, should two
  columns share a name), and with distinct names it is the columns paired with the
  values in cursor order.
\<close>

theorem C10_get_person:
  "(callproc pid = Inr cur \<and> fetchall cur = [] \<longrightarrow> sp_get_person_by_id callproc pid = Inr None) \<and>
   (callproc pid = Inr cur \<and> fetchall cur = row # others \<and> length (description cur) \<le> length row \<longrightarrow>
      (\<exists>d. sp_get_person_by_id callproc pid = Inr (Some d) \<and>
           map_of d = map_of (rev (zip (map py_lower (description cur)) row)) \<and>
           (distinct (map py_lower (description cur)) \<longrightarrow>
              d = zip (map py_lower (description cur)) row)))"
proof (intro conjI impI)
  assume "callproc pid = Inr cur \<and> fetchall cur = []"
  then show "sp_get_person_by_id callproc pid = Inr None"
    by (simp add: sp_get_person_by_id_def)
next
  assume a: "callproc pid = Inr cur \<and> fetchall cur = row # others \<and> length (description cur) \<le> length row"
  let ?cols = "map py_lower (description cur)"
  let ?d = "fold (\<lambda>(c, v). AList.update c v) (zip ?cols row) []"
  have len: "length ?cols \<le> length row" using a by simp
  have r: "sp_get_person_by_id callproc pid = Inr (Some ?d)"
    using a dict_of_columns_fold [OF len, of "[]"] by (simp add: sp_get_person_by_id_def)
  have m: "map_of ?d = map_of (rev (zip ?cols row))"
    by (simp add: map_of_fold_update)
  have e: "distinct ?cols \<longrightarrow> ?d = zip ?cols row"
  proof
    assume "distinct ?cols"
    then have "distinct (map fst (zip ?cols row))"
      using len by (simp add: map_fst_zip_take distinct_take)
    then show "?d = zip ?cols row"
      using fold_update_distinct [of "zip ?cols row" "[]"] by simp
  qed
  show "\<exists>d. sp_get_person_by_id callproc pid = Inr (Some d) \<and>
           map_of d = map_of (rev (zip (map py_lower (description cur)) row)) \<and>
           (distinct (map py_lower (description cur)) \<longrightarrow>
              d = zip (map py_lower (description cur)) row)"
    using r m e by blast
qed

definition one_person :: get_person_proc where
  "one_person pid =
     (if pid = 7 then Inr \<lparr>description = [''PERSON_ID'', ''FULL_NAME''], fetchall = [[PInt 7, PStr ''Ama'']]\<rparr>
      else Inr \<lparr>description = [''PERSON_ID'', ''FULL_NAME''], fetchall = []\<rparr>)"

theorem C10_get_person_witness:
  "sp_get_person_by_id one_person 8 = Inr None \<and>
   sp_get_person_by_id one_person 7 = Inr (Some [(''person_id'', PInt 7), (''full_name'', PStr ''Ama'')])"
proof -
  have "sp_get_person_by_id one_person 8 = Inr None"
    using C10_get_person
      [of one_person 8 "\<lparr>description = [''PERSON_ID'', ''FULL_NAME''], fetchall = []\<rparr>"]
    by (simp add: one_person_def)
  moreover have "sp_get_person_by_id one_person 7 =
      Inr (Some [(''person_id'', PInt 7), (''full_name'', PStr ''Ama'')])"
    by code_simp
  ultimately show ?thesis by simp
qed


section \<open>Connecting: sessions at the server\<close>

text \<open>
  The server side of the connections: how many sessions were ever opened (the next
  session's number) and which are open now. The application holds in \<open>self.db\<close> either
  \<open>None\<close> or an \<open>OracleDB\<close> object, which stands for the session it opened.
\<close>

record server =
  opened :: nat
  live :: "nat list"

text \<open>
  \<open>OracleDB(host, port, service, user, password)\<close>: \<open>oracledb.connect\<close> raises (the
  answer of the network is a parameter, the text of the exception if it fails) or opens a
  new session. \<open>OracleDB.close()\<close> closes the session; an error while closing is passed over.
\<close>

definition OracleDB_init :: "string option \<Rightarrow> server \<Rightarrow> py_error + (nat \<times> server)" where
  "OracleDB_init failure srv =
     (case failure of
        Some e \<Rightarrow> Inl (DatabaseError e)
      | None \<Rightarrow> Inr (opened srv, srv\<lparr>opened := Suc (opened srv), live := live srv @ [opened srv]\<rparr>))"

definition OracleDB_close :: "nat \<Rightarrow> server \<Rightarrow> server" where
  "OracleDB_close s srv = srv\<lparr>live := removeAll s (live srv)\<rparr>"

text \<open>
  \<open>CensusApp.connect_db\<close> (census\_app.py): \<open>if self.db: self.db.close()\<close>, then the new
  \<open>OracleDB\<close> is assigned to \<open>self.db\<close>; when that raises, \<open>self.db\<close> keeps the closed object.
  The state is \<open>self.db\<close> and the server.
\<close>

definition CensusApp_connect_db :: "string option \<Rightarrow> nat option \<times> server \<Rightarrow> nat option \<times> server" where
  "CensusApp_connect_db failure st =
     (let (db, srv) = st;
          srv1 = (case db of Some s \<Rightarrow> OracleDB_close s srv | None \<Rightarrow> srv)
      in case OracleDB_init failure srv1 of
           Inl e \<Rightarrow> (db, srv1)
         | Inr (s, srv2) \<Rightarrow> (Some s, srv2))"

definition CensusApp_disconnect_db :: "nat option \<times> server \<Rightarrow> nat option \<times> server" where
  "CensusApp_disconnect_db st =
     (let (db, srv) = st
      in case db of Some s \<Rightarrow> (None, OracleDB_close s srv) | None \<Rightarrow> (None, srv))"

text \<open>
  \<open>App.connect_db\<close> (census\_crud\_ui.py): the new \<open>OracleDB\<close> is assigned to \<open>self.db\<close>;
  nothing closes the one that was there.
\<close>

definition App_connect_db :: "string option \<Rightarrow> nat option \<times> server \<Rightarrow> nat option \<times> server" where
  "App_connect_db failure st =
     (let (db, srv) = st
      in case OracleDB_init failure srv of
           Inl e \<Rightarrow> (db, srv)
         | Inr (s, srv2) \<Rightarrow> (Some s, srv2))"

definition start :: "nat option \<times> server" where
  "start = (None, \<lparr>opened = 0, live = []\<rparr>)"

text \<open>At most one session is open, and it is the one \<open>self.db\<close> holds.\<close>

definition one_session :: "nat option \<times> server \<Rightarrow> bool" where
  "one_session st =
     (let (db, srv) = st
      in (live srv = [] \<or> (\<exists>s. db = Some s \<and> live srv = [s])) \<and> list_all (\<lambda>s. s < opened srv) (live srv))"

lemma one_session_start: "one_session start"
  by (simp add: one_session_def start_def)

lemma CensusApp_connect_db_one_session:
  "one_session st \<Longrightarrow> one_session (CensusApp_connect_db failure st)"
  by (cases st; cases failure)
     (auto simp: one_session_def CensusApp_connect_db_def OracleDB_init_def OracleDB_close_def
           split: option.splits)

lemma CensusApp_disconnect_db_one_session:
  "one_session st \<Longrightarrow> one_session (CensusApp_disconnect_db st)"
  by (cases st)
     (auto simp: one_session_def CensusApp_disconnect_db_def OracleDB_close_def split: option.splits)

text \<open>
  C7 holds of \<open>CensusApp.connect_db\<close> (the two lemmas above: one open session at most,
  after any sequence of connects and disconnects) and fails for \<open>App.connect_db\<close>: after
  two successful connects both sessions are open, and only the second is held.
\<close>

theorem C7_App_connect_twice:
  "App_connect_db None (App_connect_db None start) = (Some 1, \<lparr>opened = 2, live = [0, 1]\<rparr>)"
  by (simp add: App_connect_db_def OracleDB_init_def start_def)

text \<open>The same two connects in \<open>CensusApp\<close> leave the second session only.\<close>

lemma CensusApp_connect_twice:
  "CensusApp_connect_db None (CensusApp_connect_db None start) = (Some 1, \<lparr>opened = 2, live = [1]\<rparr>)"
  by (simp add: CensusApp_connect_db_def OracleDB_init_def OracleDB_close_def start_def)

section \<open>Reading numbers and dates from form text\<close>

text \<open>
  \<open>int(s)\<close> on ASCII text, as \<open>py_int\<close>: white space (tab, line feed, vertical tab, form
  feed, carriage return, space) is dropped at both ends; then an optional sign, and decimal
  digits with single underscores allowed between two digits. \<open>None\<close> stands for
  \<open>ValueError\<close>.
\<close>

definition is_digit :: "char \<Rightarrow> bool" where
  "is_digit c = (let n = (of_char c :: nat) in 48 \<le> n \<and> n \<le> 57)"

definition digit_val :: "char \<Rightarrow> nat" where
  "digit_val c = of_char c - 48"

definition is_space :: "char \<Rightarrow> bool" where
  "is_space c = (let n = (of_char c :: nat) in (9 \<le> n \<and> n \<le> 13) \<or> n = 32)"

fun int_digits :: "nat \<Rightarrow> string \<Rightarrow> nat option" where
  "int_digits acc [] = Some acc"
| "int_digits acc [c] = (if is_digit c then Some (10 * acc + digit_val c) else None)"
| "int_digits acc (c # d # s) =
     (if is_digit c then int_digits (10 * acc + digit_val c) (d # s)
      else if c = CHR ''_'' \<and> is_digit d then int_digits acc (d # s)
      else None)"

definition int_body :: "string \<Rightarrow> nat option" where
  "int_body s = (case s of [] \<Rightarrow> None | c # r \<Rightarrow> if is_digit c then int_digits (digit_val c) r else None)"

definition py_int :: "string \<Rightarrow> int option" where
  "py_int s =
     (case rev (dropWhile is_space (rev (dropWhile is_space s))) of
        [] \<Rightarrow> None
      | c # r \<Rightarrow>
          if c = CHR ''-'' then map_option (\<lambda>n. - int n) (int_body r)
          else if c = CHR ''+'' then map_option int (int_body r)
          else map_option int (int_body (c # r)))"

text \<open>
  \<open>datetime.strptime(s, '%Y-%m-%d').date()\<close>, as \<open>strptime_ymd\<close>: four digits for the
  year, a month as \<open>1[0-2]|0[1-9]|[1-9]\<close>, a day as \<open>3[01]|[12]\d|0[1-9]|[1-9]| [1-9]\<close>,
  separated by hyphens, with nothing left over; the year is at least 1 and the day exists
  in the month. \<open>None\<close> stands for \<open>ValueError\<close>.
\<close>

definition is_leap :: "nat \<Rightarrow> bool" where
  "is_leap y = (y mod 4 = 0 \<and> (y mod 100 \<noteq> 0 \<or> y mod 400 = 0))"

definition days_in_month :: "nat \<Rightarrow> nat \<Rightarrow> nat" where
  "days_in_month y m =
     (if m = 2 then (if is_leap y then 29 else 28)
      else if m = 4 \<or> m = 6 \<or> m = 9 \<or> m = 11 then 30 else 31)"

definition in_range :: "char \<Rightarrow> char \<Rightarrow> char \<Rightarrow> bool" where
  "in_range lo hi c = ((of_char lo :: nat) \<le> of_char c \<and> (of_char c :: nat) \<le> of_char hi)"

definition month_of :: "string \<Rightarrow> (nat \<times> string) option" where
  "month_of s =
     (case s of
        [] \<Rightarrow> None
      | [c] \<Rightarrow> if in_range CHR ''1'' CHR ''9'' c then Some (digit_val c, []) else None
      | c # d # r \<Rightarrow>
          if c = CHR ''1'' \<and> in_range CHR ''0'' CHR ''2'' d then Some (10 + digit_val d, r)
          else if c = CHR ''0'' \<and> in_range CHR ''1'' CHR ''9'' d then Some (digit_val d, r)
          else if in_range CHR ''1'' CHR ''9'' c then Some (digit_val c, d # r)
          else None)"

definition day_of :: "string \<Rightarrow> nat option" where
  "day_of s =
     (case s of
        [c] \<Rightarrow> if in_range CHR ''1'' CHR ''9'' c then Some (digit_val c) else None
      | [c, d] \<Rightarrow>
          if c = CHR ''3'' \<and> in_range CHR ''0'' CHR ''1'' d then Some (30 + digit_val d)
          else if in_range CHR ''1'' CHR ''2'' c \<and> is_digit d then Some (10 * digit_val c + digit_val d)
          else if (c = CHR ''0'' \<or> c = CHR '' '') \<and> in_range CHR ''1'' CHR ''9'' d then Some (digit_val d)
          else None
      | _ \<Rightarrow> None)"

definition strptime_ymd :: "string \<Rightarrow> (nat \<times> nat \<times> nat) option" where
  "strptime_ymd s =
     (case s of
        y1 # y2 # y3 # y4 # dash # rest \<Rightarrow>
          if is_digit y1 \<and> is_digit y2 \<and> is_digit y3 \<and> is_digit y4 \<and> dash = CHR ''-'' then
            (case month_of rest of
               None \<Rightarrow> None
             | Some (m, rest2) \<Rightarrow>
                 (case rest2 of
                    [] \<Rightarrow> None
                  | dash2 # rest3 \<Rightarrow>
                      if dash2 = CHR ''-'' then
                        (case day_of rest3 of
                           None \<Rightarrow> None
                         | Some d \<Rightarrow>
                             let y = 1000 * digit_val y1 + 100 * digit_val y2 + 10 * digit_val y3 + digit_val y4
                             in if 1 \<le> y \<and> d \<le> days_in_month y m then Some (y, m, d) else None)
                      else None))
          else None
      | _ \<Rightarrow> None)"

section \<open>The person form and the insert procedure\<close>

text \<open>
  A form is the text of each entry field, by the key of its \<open>StringVar\<close>. A handler either
  returns after a message box, having called nothing at the backend, or goes on to call a
  stored procedure: the model follows it up to that call and gives the procedure's name
  and its IN parameters in positional order (the OUT variable for the new id comes last
  in the source and is left out).
\<close>

type_synonym form = "string \<Rightarrow> string"

datatype request = Refused dialog | Issued string "pyval list"

subsection \<open>CensusApp.insert\_person (census\_app.py)\<close>





subsection \<open>App.\_read\_person\_from\_form and the handlers (census\_crud\_ui.py)\<close>

record Person =
  person_id :: "int option"
  ea_code :: "string option"
  structure_no :: "string option"
  household_no :: "string option"
  line_no :: "int option"
  full_name :: "string option"
  sex :: "string option"
  date_of_birth :: "(nat \<times> nat \<times> nat) option"
  age_years :: "int option"
  nationality :: "string option"
  ethnicity :: "string option"
  religion :: "string option"
  marital_status :: "string option"

text \<open>
  The local functions of \<open>_read_person_from_form\<close>: each catches the \<open>ValueError\<close> of
  the conversion and returns \<open>None\<close> in its place. \<open>or_None\<close> is \<open>x or None\<close> on text.
\<close>

definition to_int :: "string \<Rightarrow> int option" where
  "to_int s = (if s \<noteq> [] then (case py_int s of Some n \<Rightarrow> Some n | None \<Rightarrow> None) else None)"

definition to_date :: "string \<Rightarrow> (nat \<times> nat \<times> nat) option" where
  "to_date s = (if s \<noteq> [] then (case strptime_ymd s of Some d \<Rightarrow> Some d | None \<Rightarrow> None) else None)"

definition or_None :: "string \<Rightarrow> string option" where
  "or_None s = (if s = [] then None else Some s)"

definition read_person_from_form :: "form \<Rightarrow> Person" where
  "read_person_from_form vars =
     \<lparr>person_id = to_int (vars ''person_id''),
      ea_code = or_None (vars ''ea_code''),
      structure_no = or_None (vars ''structure_no''),
      household_no = or_None (vars ''household_no''),
      line_no = to_int (vars ''line_no''),
      full_name = or_None (vars ''full_name''),
      sex = or_None (vars ''sex''),
      date_of_birth = to_date (vars ''dob''),
      age_years = to_int (vars ''age_years''),
      nationality = or_None (vars ''nationality''),
      ethnicity = or_None (vars ''ethnicity''),
      religion = or_None (vars ''religion''),
      marital_status = or_None (vars ''marital_status'')\<rparr>"

text \<open>The attributes of a \<open>Person\<close> as parameter values.\<close>

definition str_param :: "string option \<Rightarrow> pyval" where
  "str_param x = (case x of None \<Rightarrow> PNone | Some s \<Rightarrow> PStr s)"

definition int_param :: "int option \<Rightarrow> pyval" where
  "int_param x = (case x of None \<Rightarrow> PNone | Some n \<Rightarrow> PInt n)"

definition date_param :: "(nat \<times> nat \<times> nat) option \<Rightarrow> pyval" where
  "date_param x = (case x of None \<Rightarrow> PNone | Some (y, m, d) \<Rightarrow> PDate y m d)"


definition App_sp_update_person :: "Person \<Rightarrow> request" where
  "App_sp_update_person p =
     Issued ''UPDATE_PERSON''
       [int_param (person_id p), str_param (full_name p), str_param (sex p),
        date_param (date_of_birth p), int_param (age_years p), str_param (nationality p),
        str_param (ethnicity p), str_param (religion p), str_param (marital_status p)]"


text \<open>\<open>on_update\<close>: \<open>not p.person_id\<close> holds of \<open>None\<close> and of 0.\<close>

definition App_on_update :: "bool \<Rightarrow> form \<Rightarrow> request" where
  "App_on_update connected vars =
     (if \<not> connected then Refused (ShowWarning ''DB'' ''Not connected.'')
      else
        let p = read_person_from_form vars in
        if person_id p = None \<or> person_id p = Some 0 then
          Refused (ShowWarning ''Update'' ''Enter Person ID to update.'')
        else App_sp_update_person p)"


section \<open>What the insert handlers send\<close>

lemma py_int_Nil: "py_int [] = None"
  by (simp add: py_int_def)

lemma strptime_ymd_Nil: "strptime_ymd [] = None"
  by (simp add: strptime_ymd_def)

lemma dict_get_update:
  "dict_get (AList.update k v d) k' dflt = (if k' = k then v else dict_get d k' dflt)"
  by (simp add: dict_get_def update_conv')

lemma dict_get_Nil: "dict_get [] k dflt = dflt"
  by (simp add: dict_get_def)

text \<open>
  The value a field's text puts into its slot when the call is issued: text as it is, a
  number or a date as the conversion reads it, and \<open>None\<close> for an empty field.
\<close>

definition text_slot :: "string \<Rightarrow> pyval" where
  "text_slot v = (if v = [] then PNone else PStr v)"

definition int_slot :: "string \<Rightarrow> pyval" where
  "int_slot v = (case py_int v of None \<Rightarrow> PNone | Some n \<Rightarrow> PInt n)"

definition date_slot :: "string \<Rightarrow> pyval" where
  "date_slot v = (case strptime_ymd v of None \<Rightarrow> PNone | Some (y, m, d) \<Rightarrow> PDate y m d)"






lemma to_int_py_int: "to_int s = py_int s"
  by (simp add: to_int_def py_int_Nil split: option.split)

lemma to_date_strptime_ymd: "to_date s = strptime_ymd s"
  by (simp add: to_date_def strptime_ymd_Nil split: option.split)

lemma str_param_or_None: "str_param (or_None s) = text_slot s"
  by (simp add: str_param_def or_None_def text_slot_def)

lemma int_param_to_int: "int_param (to_int s) = int_slot s"
  by (simp add: int_param_def int_slot_def to_int_py_int)

lemma date_param_to_date: "date_param (to_date s) = date_slot s"
  by (simp add: date_param_def date_slot_def to_date_strptime_ymd)


lemma App_on_update_cases:
  "App_on_update True vars =
     (if py_int (vars ''person_id'') = None \<or> py_int (vars ''person_id'') = Some 0 then
        Refused (ShowWarning ''Update'' ''Enter Person ID to update.'')
      else
        Issued ''UPDATE_PERSON''
          [int_slot (vars ''person_id''), text_slot (vars ''full_name''), text_slot (vars ''sex''),
           date_slot (vars ''dob''), int_slot (vars ''age_years''),
           text_slot (vars ''nationality''), text_slot (vars ''ethnicity''),
           text_slot (vars ''religion''), text_slot (vars ''marital_status'')])"
  by (simp add: App_on_update_def App_sp_update_person_def read_person_from_form_def Let_def
      str_param_or_None int_param_to_int date_param_to_date)
     (simp add: to_int_py_int)

section \<open>Decimal text is read back as the number it prints\<close>















section \<open>Numeric fields of the person form\<close>







section \<open>The ISO text of a calendar date is read back as that date\<close>































section \<open>The date field of the person form\<close>







section \<open>Reading the exported file back\<close>

text \<open>
  Reading CSV text as \<open>csv.reader\<close> does under the default dialect, character by
  character through the reader's states: at the start of a record, at the start of a
  field, in an unquoted field, in a quoted field, after a quote inside a quoted field, and
  after a carriage return (where one line feed is passed over). A line break outside
  quotes ends the record; an empty line gives a record without fields. \<open>csv_run\<close> carries
  the field and the record read so far.
\<close>

datatype csv_mode = StartRecord | StartField | InField | InQuoted | QuoteInQuoted | EatCRNL

definition is_eol :: "char \<Rightarrow> bool" where
  "is_eol c = (c = CHR 0x0D \<or> c = CHR 0x0A)"

definition after_eol :: "char \<Rightarrow> csv_mode" where
  "after_eol c = (if c = CHR 0x0D then EatCRNL else StartRecord)"

fun csv_run :: "csv_mode \<Rightarrow> string \<Rightarrow> string list \<Rightarrow> string \<Rightarrow> string list list" where
  "csv_run mode f r [] = (if mode = StartRecord \<or> mode = EatCRNL then [] else [r @ [f]])"
| "csv_run StartRecord f r (c # s) =
     (if is_eol c then [] # csv_run (after_eol c) [] [] s
      else if c = CHR 0x22 then csv_run InQuoted f r s
      else if c = CHR '','' then csv_run StartField [] (r @ [f]) s
      else csv_run InField (f @ [c]) r s)"
| "csv_run StartField f r (c # s) =
     (if is_eol c then (r @ [f]) # csv_run (after_eol c) [] [] s
      else if c = CHR 0x22 then csv_run InQuoted f r s
      else if c = CHR '','' then csv_run StartField [] (r @ [f]) s
      else csv_run InField (f @ [c]) r s)"
| "csv_run InField f r (c # s) =
     (if is_eol c then (r @ [f]) # csv_run (after_eol c) [] [] s
      else if c = CHR '','' then csv_run StartField [] (r @ [f]) s
      else csv_run InField (f @ [c]) r s)"
| "csv_run InQuoted f r (c # s) =
     (if c = CHR 0x22 then csv_run QuoteInQuoted f r s
      else csv_run InQuoted (f @ [c]) r s)"
| "csv_run QuoteInQuoted f r (c # s) =
     (if c = CHR 0x22 then csv_run InQuoted (f @ [c]) r s
      else if c = CHR '','' then csv_run StartField [] (r @ [f]) s
      else if is_eol c then (r @ [f]) # csv_run (after_eol c) [] [] s
      else csv_run InField (f @ [c]) r s)"
| "csv_run EatCRNL f r (c # s) =
     (if c = CHR 0x0A then csv_run StartRecord [] [] s
      else if is_eol c then [] # csv_run (after_eol c) [] [] s
      else if c = CHR 0x22 then csv_run InQuoted [] [] s
      else if c = CHR '','' then csv_run StartField [] [[]] s
      else csv_run InField [c] [] s)"

definition csv_read :: "string \<Rightarrow> string list list" where
  "csv_read text = csv_run StartRecord [] [] text"

lemma csv_run_InField_plain:
  "\<forall>c\<in>set cs. \<not> csv_special c \<Longrightarrow>
   csv_run InField f r (cs @ rest) = csv_run InField (f @ cs) r rest"
proof (induction cs arbitrary: f)
  case Nil
  then show ?case by simp
next
  case (Cons c cs)
  then have "\<not> csv_special c" and rest: "\<forall>c\<in>set cs. \<not> csv_special c" by simp_all
  then have "\<not> is_eol c" "c \<noteq> CHR '',''" by (auto simp: csv_special_def is_eol_def)
  then show ?case using Cons.IH [OF rest, of "f @ [c]"] by simp
qed

lemma csv_run_InQuoted_escape:
  "csv_run InQuoted f r (csv_escape cs @ rest) = csv_run InQuoted (f @ cs) r rest"
proof (induction cs arbitrary: f)
  case Nil
  then show ?case by simp
next
  case (Cons c cs)
  show ?case
  proof (cases "c = CHR 0x22")
    case True
    then show ?thesis using Cons.IH [of "f @ [CHR 0x22]"] by simp
  next
    case False
    then show ?thesis using Cons.IH [of "f @ [c]"] by simp
  qed
qed

text \<open>A written field followed by a comma is read as that field, and the next field starts.\<close>

lemma csv_run_field_comma:
  "csv_run StartField [] r (csv_field f @ CHR '','' # rest) = csv_run StartField [] (r @ [f]) rest"
proof (cases "needs_quote f")
  case True
  then show ?thesis
    by (simp add: csv_field_def csv_run_InQuoted_escape is_eol_def)
next
  case False
  then have plain: "\<forall>c\<in>set f. \<not> csv_special c"
    by (simp add: needs_quote_def list_ex_iff)
  show ?thesis
  proof (cases f)
    case Nil
    with False show ?thesis by (simp add: csv_field_def is_eol_def)
  next
    case (Cons c cs)
    with plain have c: "\<not> csv_special c" and cs: "\<forall>c\<in>set cs. \<not> csv_special c" by simp_all
    from c have c': "\<not> is_eol c" "c \<noteq> CHR 0x22" "c \<noteq> CHR '',''"
      by (auto simp: csv_special_def is_eol_def)
    have "csv_run StartField [] r (f @ CHR '','' # rest) =
        csv_run InField [c] r (cs @ CHR '','' # rest)"
      using Cons c' by simp
    also have "\<dots> = csv_run InField ([c] @ cs) r (CHR '','' # rest)"
      using cs by (rule csv_run_InField_plain)
    also have "\<dots> = csv_run StartField [] (r @ [f]) rest"
      using Cons by (simp add: is_eol_def)
    finally show ?thesis using False by (simp add: csv_field_def)
  qed
qed

text \<open>A written field followed by CR LF is read as the last field of its record.\<close>

lemma csv_run_field_crlf:
  "csv_run StartField [] r (csv_field f @ CHR 0x0D # CHR 0x0A # rest) =
     (r @ [f]) # csv_run StartRecord [] [] rest"
proof (cases "needs_quote f")
  case True
  then show ?thesis
    by (simp add: csv_field_def csv_run_InQuoted_escape is_eol_def after_eol_def)
next
  case False
  then have plain: "\<forall>c\<in>set f. \<not> csv_special c"
    by (simp add: needs_quote_def list_ex_iff)
  show ?thesis
  proof (cases f)
    case Nil
    with False show ?thesis by (simp add: csv_field_def is_eol_def after_eol_def)
  next
    case (Cons c cs)
    with plain have c: "\<not> csv_special c" and cs: "\<forall>c\<in>set cs. \<not> csv_special c" by simp_all
    from c have c': "\<not> is_eol c" "c \<noteq> CHR 0x22" "c \<noteq> CHR '',''"
      by (auto simp: csv_special_def is_eol_def)
    have "csv_run StartField [] r (f @ CHR 0x0D # CHR 0x0A # rest) =
        csv_run InField [c] r (cs @ CHR 0x0D # CHR 0x0A # rest)"
      using Cons c' by simp
    also have "\<dots> = csv_run InField ([c] @ cs) r (CHR 0x0D # CHR 0x0A # rest)"
      using cs by (rule csv_run_InField_plain)
    also have "\<dots> = (r @ [f]) # csv_run StartRecord [] [] rest"
      using Cons by (simp add: is_eol_def after_eol_def)
    finally show ?thesis using False by (simp add: csv_field_def)
  qed
qed

text \<open>The written fields of a record, joined by commas and ended by CR LF, are read as the record.\<close>

lemma csv_run_join:
  "fs \<noteq> [] \<Longrightarrow>
   csv_run StartField [] r (csv_join (map csv_field fs) @ CHR 0x0D # CHR 0x0A # rest) =
     (r @ fs) # csv_run StartRecord [] [] rest"
proof (induction fs arbitrary: r)
  case Nil
  then show ?case by simp
next
  case (Cons f fs)
  show ?case
  proof (cases fs)
    case Nil
    then show ?thesis by (simp add: csv_run_field_crlf)
  next
    case (Cons g gs)
    have "csv_run StartField [] r (csv_join (map csv_field (f # fs)) @ CHR 0x0D # CHR 0x0A # rest) =
        csv_run StartField [] r
          (csv_field f @ CHR '','' # (csv_join (map csv_field fs) @ CHR 0x0D # CHR 0x0A # rest))"
      using Cons by simp
    also have "\<dots> = csv_run StartField [] (r @ [f])
        (csv_join (map csv_field fs) @ CHR 0x0D # CHR 0x0A # rest)"
      by (rule csv_run_field_comma)
    also have "\<dots> = ((r @ [f]) @ fs) # csv_run StartRecord [] [] rest"
      using Cons by (intro Cons.IH) simp
    finally show ?thesis by simp
  qed
qed

text \<open>At the start of a record, a character that is no line break starts a field.\<close>

lemma csv_run_StartRecord_field:
  "\<not> is_eol c \<Longrightarrow> csv_run StartRecord [] [] (c # s) = csv_run StartField [] [] (c # s)"
  by simp

lemma csv_field_head:
  "csv_field f @ CHR '','' # rest = c # s \<Longrightarrow> \<not> is_eol c"
proof (cases "needs_quote f")
  case True
  assume "csv_field f @ CHR '','' # rest = c # s"
  with True show ?thesis by (auto simp: csv_field_def is_eol_def)
next
  case False
  assume a: "csv_field f @ CHR '','' # rest = c # s"
  show ?thesis
  proof (cases f)
    case Nil
    with a False show ?thesis by (auto simp: csv_field_def is_eol_def)
  next
    case (Cons x xs)
    with a False have "c = x" by (simp add: csv_field_def)
    moreover have "\<not> csv_special x"
      using False Cons by (simp add: needs_quote_def)
    ultimately show ?thesis by (auto simp: csv_special_def is_eol_def)
  qed
qed

lemma csv_field_head_nonempty:
  "f \<noteq> [] \<Longrightarrow> csv_field f @ rest = c # s \<Longrightarrow> \<not> is_eol c"
proof (cases "needs_quote f")
  case True
  assume "csv_field f @ rest = c # s"
  with True show ?thesis by (auto simp: csv_field_def is_eol_def)
next
  case False
  assume a: "csv_field f @ rest = c # s" and n: "f \<noteq> []"
  then obtain x xs where f: "f = x # xs" by (cases f) auto
  with a False have "c = x" by (simp add: csv_field_def)
  moreover have "\<not> csv_special x"
    using False f by (simp add: needs_quote_def)
  ultimately show ?thesis by (auto simp: csv_special_def is_eol_def)
qed

text \<open>A written record is read as the record, and reading goes on at the start of the next.\<close>

lemma csv_run_record:
  "csv_run StartRecord [] [] (csv_record fs @ rest) = fs # csv_run StartRecord [] [] rest"
proof -
  consider "fs = []" | "fs = [[]]" | f where "fs = [f]" "f \<noteq> []"
    | f g gs where "fs = f # g # gs"
    by (cases fs rule: csv_join.cases) auto
  then show ?thesis
  proof cases
    case 1
    then show ?thesis by (simp add: csv_record_def is_eol_def after_eol_def)
  next
    case 2
    then show ?thesis by (simp add: csv_record_def is_eol_def after_eol_def)
  next
    case 3
    let ?t = "csv_join (map csv_field fs) @ CHR 0x0D # CHR 0x0A # rest"
    have t: "?t = csv_field f @ CHR 0x0D # CHR 0x0A # rest" using 3 by simp
    obtain c s where cs: "?t = c # s" by (cases ?t) auto
    then have "\<not> is_eol c" using csv_field_head_nonempty [OF 3(2)] t by metis
    then have "csv_run StartRecord [] [] ?t = csv_run StartField [] [] ?t"
      unfolding cs by (rule csv_run_StartRecord_field)
    also have "\<dots> = ([] @ fs) # csv_run StartRecord [] [] rest"
      using 3 by (intro csv_run_join) simp
    finally show ?thesis using 3 by (simp add: csv_record_def)
  next
    case 4
    let ?t = "csv_join (map csv_field fs) @ CHR 0x0D # CHR 0x0A # rest"
    have t: "?t = csv_field f @ CHR '','' #
        (csv_join (map csv_field (g # gs)) @ CHR 0x0D # CHR 0x0A # rest)"
      using 4 by simp
    obtain c s where cs: "?t = c # s" by (cases ?t) auto
    then have "\<not> is_eol c" using csv_field_head t by metis
    then have "csv_run StartRecord [] [] ?t = csv_run StartField [] [] ?t"
      unfolding cs by (rule csv_run_StartRecord_field)
    also have "\<dots> = ([] @ fs) # csv_run StartRecord [] [] rest"
      using 4 by (intro csv_run_join) simp
    finally show ?thesis using 4 by (simp add: csv_record_def)
  qed
qed

lemma csv_run_text:
  "csv_run StartRecord [] [] (csv_text recs @ rest) = recs @ csv_run StartRecord [] [] rest"
proof (induction recs)
  case Nil
  then show ?case by (simp add: csv_text_def)
next
  case (Cons r recs)
  have "csv_text (r # recs) @ rest = csv_record r @ (csv_text recs @ rest)"
    by (simp add: csv_text_def)
  then show ?case using Cons.IH by (simp add: csv_run_record)
qed

text \<open>Reading back what the writer wrote gives the records that were written.\<close>

lemma csv_read_csv_text: "csv_read (csv_text recs) = recs"
  using csv_run_text [of recs "[]"] by (simp add: csv_read_def)

end
